theory Spec2Isabelle
  imports Complex_Main "HOL-Library.Sublist" "HOL-Library.Multiset"
begin

section \<open>JavaScript values\<close>

subsection \<open>Numbers\<close>

text \<open>
  A JavaScript \<^verbatim>\<open>number\<close> is modelled as an exact real or one of the three IEEE special
  values. Arithmetic on the finite values is exact: rounding, overflow and the sign of
  zero are not modelled (a zero divisor is read as \<^verbatim>\<open>+0\<close>). The special values follow
  IEEE 754: \<open>NaN\<close> absorbs every operation and every comparison with it is false.
\<close>

datatype number = Fin real | PInf | NInf | NaN

instantiation number :: "{plus, uminus, minus, times, inverse, ord}"
begin

fun plus_number :: "number \<Rightarrow> number \<Rightarrow> number" where
  "plus_number (Fin x) (Fin y) = Fin (x + y)"
| "plus_number NaN _ = NaN"
| "plus_number _ NaN = NaN"
| "plus_number PInf NInf = NaN"
| "plus_number NInf PInf = NaN"
| "plus_number PInf _ = PInf"
| "plus_number _ PInf = PInf"
| "plus_number NInf _ = NInf"
| "plus_number _ NInf = NInf"

fun uminus_number :: "number \<Rightarrow> number" where
  "uminus_number (Fin x) = Fin (- x)"
| "uminus_number PInf = NInf"
| "uminus_number NInf = PInf"
| "uminus_number NaN = NaN"

definition minus_number :: "number \<Rightarrow> number \<Rightarrow> number" where
  "minus_number a b = a + (- b)"

fun times_number :: "number \<Rightarrow> number \<Rightarrow> number" where
  "times_number (Fin x) (Fin y) = Fin (x * y)"
| "times_number NaN _ = NaN"
| "times_number _ NaN = NaN"
| "times_number PInf (Fin y) = (if 0 < y then PInf else if y < 0 then NInf else NaN)"
| "times_number NInf (Fin y) = (if 0 < y then NInf else if y < 0 then PInf else NaN)"
| "times_number (Fin x) PInf = (if 0 < x then PInf else if x < 0 then NInf else NaN)"
| "times_number (Fin x) NInf = (if 0 < x then NInf else if x < 0 then PInf else NaN)"
| "times_number PInf PInf = PInf"
| "times_number PInf NInf = NInf"
| "times_number NInf PInf = NInf"
| "times_number NInf NInf = PInf"

fun divide_number :: "number \<Rightarrow> number \<Rightarrow> number" where
  "divide_number (Fin x) (Fin y) =
     (if y \<noteq> 0 then Fin (x / y)
      else if 0 < x then PInf else if x < 0 then NInf else NaN)"
| "divide_number NaN _ = NaN"
| "divide_number _ NaN = NaN"
| "divide_number (Fin x) PInf = Fin 0"
| "divide_number (Fin x) NInf = Fin 0"
| "divide_number PInf (Fin y) = (if 0 \<le> y then PInf else NInf)"
| "divide_number NInf (Fin y) = (if 0 \<le> y then NInf else PInf)"
| "divide_number PInf PInf = NaN"
| "divide_number PInf NInf = NaN"
| "divide_number NInf PInf = NaN"
| "divide_number NInf NInf = NaN"

definition inverse_number :: "number \<Rightarrow> number" where
  "inverse_number a = divide (Fin 1) a"

fun less_eq_number :: "number \<Rightarrow> number \<Rightarrow> bool" where
  "less_eq_number (Fin x) (Fin y) = (x \<le> y)"
| "less_eq_number NaN _ = False"
| "less_eq_number _ NaN = False"
| "less_eq_number NInf _ = True"
| "less_eq_number _ PInf = True"
| "less_eq_number PInf _ = False"
| "less_eq_number _ NInf = False"

definition less_number :: "number \<Rightarrow> number \<Rightarrow> bool" where
  "less_number a b = (a \<le> b \<and> a \<noteq> b)"

instance ..

end

text \<open>\<^verbatim>\<open>Math.log\<close>: the natural logarithm; \<^verbatim>\<open>-Infinity\<close> at zero, \<^verbatim>\<open>NaN\<close> below it.\<close>

fun Math_log :: "number \<Rightarrow> number" where
  "Math_log (Fin x) = (if 0 < x then Fin (ln x) else if x = 0 then NInf else NaN)"
| "Math_log PInf = PInf"
| "Math_log NInf = NaN"
| "Math_log NaN = NaN"

subsection \<open>Strings, sets and arrays\<close>

text \<open>
  A string is its list of code units; the model covers code units below 256.
  \<^verbatim>\<open>String.prototype.includes\<close> is substring search.
\<close>

fun String_includes :: "string \<Rightarrow> string \<Rightarrow> bool" where
  "String_includes [] t = (t = [])"
| "String_includes (c # cs) t = (prefix t (c # cs) \<or> String_includes cs t)"

text \<open>
  \<^verbatim>\<open>[...new Set(xs)]\<close>: a \<^verbatim>\<open>Set\<close> keeps its members in insertion order, so the
  spread is \<open>xs\<close> with every repetition after the first dropped.
\<close>

fun Set_add_all :: "'a list \<Rightarrow> 'a list \<Rightarrow> 'a list" where
  "Set_add_all seen [] = seen"
| "Set_add_all seen (x # xs) = Set_add_all (if x \<in> set seen then seen else seen @ [x]) xs"

definition Set_of :: "'a list \<Rightarrow> 'a list" where
  "Set_of xs = Set_add_all [] xs"

text \<open>
  \<^verbatim>\<open>xs.slice(0, end)\<close> for an integral \<open>end\<close>: a negative \<open>end\<close> counts from the end of
  the array.
\<close>

definition slice0 :: "'a list \<Rightarrow> int \<Rightarrow> 'a list" where
  "slice0 xs e = (if e < 0 then take (nat (int (length xs) + e)) xs else take (nat e) xs)"

text \<open>
  \<^verbatim>\<open>Array.prototype.sort(cmp)\<close> is a stable sort: \<open>a\<close> is placed after \<open>b\<close> only when
  \<open>cmp a b\<close> is positive, and a \<open>NaN\<close> from the comparator counts as \<open>0\<close>. It is
  modelled as insertion from the right. For a comparator that is not consistent (only
  possible here when a score is \<open>NaN\<close>) ECMAScript leaves the order to the
  implementation, and the model's order is one of the permitted ones.
\<close>

fun sort_insert :: "('a \<Rightarrow> 'a \<Rightarrow> number) \<Rightarrow> 'a \<Rightarrow> 'a list \<Rightarrow> 'a list" where
  "sort_insert cmp x [] = [x]"
| "sort_insert cmp x (y # ys) =
     (if Fin 0 < cmp x y then y # sort_insert cmp x ys else x # y # ys)"

definition Array_sort :: "('a \<Rightarrow> 'a \<Rightarrow> number) \<Rightarrow> 'a list \<Rightarrow> 'a list" where
  "Array_sort cmp xs = foldr (sort_insert cmp) xs []"

subsection \<open>Plain objects used as dictionaries\<close>

text \<open>
  The document-frequency table is a plain object (\<^verbatim>\<open>{}\<close>, or what \<^verbatim>\<open>JSON.parse\<close>
  returns), so a property read that finds no own property continues in
  \<^verbatim>\<open>Object.prototype\<close>: \<^verbatim>\<open>({})['constructor']\<close> is the function \<^verbatim>\<open>Object\<close>, not
  \<^verbatim>\<open>undefined\<close>. Adding 1 to such a value converts it to its text and appends
  \<^verbatim>\<open>'1'\<close>. A value held in the table is therefore a count, or \<open>NonNumeric\<close>: a function
  or object inherited from \<^verbatim>\<open>Object.prototype\<close>, or the string that \<^verbatim>\<open>+ 1\<close> makes of
  one. \<^verbatim>\<open>ToNumber\<close> of a \<open>NonNumeric\<close> value is \<^verbatim>\<open>NaN\<close>. \<open>Object_prototype_keys\<close> are
  the property names of \<^verbatim>\<open>Object.prototype\<close>.
\<close>

datatype jsvalue = Count nat | NonNumeric

type_synonym object = "string \<Rightarrow> jsvalue option"

definition Object_prototype_keys :: "string list" where
  "Object_prototype_keys =
     [''constructor'', ''__defineGetter__'', ''__defineSetter__'', ''hasOwnProperty'',
      ''__lookupGetter__'', ''__lookupSetter__'', ''isPrototypeOf'',
      ''propertyIsEnumerable'', ''toString'', ''valueOf'', ''__proto__'',
      ''toLocaleString'']"

text \<open>\<^verbatim>\<open>obj[key]\<close>; \<open>None\<close> is \<^verbatim>\<open>undefined\<close>.\<close>

definition object_get :: "object \<Rightarrow> string \<Rightarrow> jsvalue option" where
  "object_get obj key =
     (case obj key of
        Some v \<Rightarrow> Some v
      | None \<Rightarrow> if key \<in> set Object_prototype_keys then Some NonNumeric else None)"

text \<open>
  \<^verbatim>\<open>obj[key] = v\<close> for a \<open>v\<close> that is a number or a string: it creates or overwrites an
  own property, except that without an own property \<^verbatim>\<open>__proto__\<close> the inherited setter
  of that name is called, which ignores such a value.
\<close>

definition object_set :: "object \<Rightarrow> string \<Rightarrow> jsvalue \<Rightarrow> object" where
  "object_set obj key v =
     (if key = ''__proto__'' \<and> obj key = None then obj else obj(key \<mapsto> v))"

section \<open>Data model (types.ts)\<close>

text \<open>
  The interfaces of the source, field for field. An optional field is an \<open>option\<close>.
  \<open>documentFrequency\<close> is typed \<^verbatim>\<open>Record<string, number>\<close> and holds the own
  properties of the table.
\<close>

record SkillEntry =
  name :: string
  description :: string
  location :: string
  "keywords" :: "string list"
  tokens :: "string list"
  tools :: "string list option"
  alwaysInclude :: "bool option"

record SkillIndex =
  version :: nat
  generated :: string
  skills :: "SkillEntry list"
  documentFrequency :: object
  avgDocLength :: number

record ScoringResult =
  skill :: SkillEntry
  score :: number
  matchedKeywords :: "string list"

text \<open>The fields of \<^verbatim>\<open>RouterConfig\<close> that \<^verbatim>\<open>scoreQuery\<close> picks.\<close>

record RouterConfig =
  maxResults :: int
  threshold :: number
  bm25K1 :: number
  bm25B :: number
  alwaysInclude :: "string list"

section \<open>Tokenizer (core/keywords.ts)\<close>

definition STOPWORDS :: "string list" where
  "STOPWORDS =
     [''a'', ''an'', ''and'', ''are'', ''as'', ''at'', ''be'', ''by'', ''can'', ''do'', ''for'', ''from'',
      ''has'', ''have'', ''he'', ''her'', ''his'', ''how'', ''i'', ''if'', ''in'', ''is'', ''it'', ''its'',
      ''just'', ''may'', ''me'', ''my'', ''no'', ''not'', ''of'', ''on'', ''or'', ''our'', ''out'', ''own'',
      ''say'', ''she'', ''so'', ''some'', ''than'', ''that'', ''the'', ''their'', ''them'', ''then'',
      ''there'', ''these'', ''they'', ''this'', ''those'', ''through'', ''to'', ''too'', ''up'', ''us'',
      ''use'', ''very'', ''was'', ''we'', ''were'', ''what'', ''when'', ''where'', ''which'', ''while'',
      ''who'', ''why'', ''will'', ''with'', ''would'', ''you'', ''your'',
      ''example'', ''see'', ''note'', ''using'', ''used'', ''uses'']"

definition MIN_TOKEN_LENGTH :: nat where
  "MIN_TOKEN_LENGTH = 2"

text \<open>
  \<^verbatim>\<open>toLowerCase\<close> on one code unit. Below 256 only the ASCII capitals have a lower case
  that the regular expression of \<open>tokenize\<close> keeps, so the others are left as they are.
\<close>

definition toLowerCase_char :: "char \<Rightarrow> char" where
  "toLowerCase_char c =
     (case map_of (zip ''ABCDEFGHIJKLMNOPQRSTUVWXYZ'' ''abcdefghijklmnopqrstuvwxyz'') c of
        Some l \<Rightarrow> l
      | None \<Rightarrow> c)"

text \<open>The class \<^verbatim>\<open>\s\<close> below 256: tab, line feed, vertical tab, form feed, carriage
  return, space and the no-break space.\<close>

definition is_space :: "char \<Rightarrow> bool" where
  "is_space c = (of_char c \<in> {9, 10, 11, 12, 13, 32, 160 :: nat})"

text \<open>The class \<^verbatim>\<open>[a-z0-9\s-]\<close>.\<close>

definition is_kept :: "char \<Rightarrow> bool" where
  "is_kept c = (c \<in> set ''abcdefghijklmnopqrstuvwxyz0123456789-'' \<or> is_space c)"

text \<open>
  \<^verbatim>\<open>s.split(/\s+/)\<close>: the pieces between maximal runs of white space, with an empty
  piece before a leading and after a trailing run; the empty string gives one empty
  piece.
\<close>

fun split_spaces :: "string \<Rightarrow> string list" where
  "split_spaces [] = [[]]"
| "split_spaces (c # cs) =
     (if is_space c then
        (case cs of
           [] \<Rightarrow> [[], []]
         | c' # _ \<Rightarrow> if is_space c' then split_spaces cs else [] # split_spaces cs)
      else
        (case split_spaces cs of
           [] \<Rightarrow> [[c]]
         | w # ws \<Rightarrow> (c # w) # ws))"

definition tokenize :: "string \<Rightarrow> string list" where
  "tokenize text =
     (let words =
            filter (\<lambda>word. length word \<ge> MIN_TOKEN_LENGTH)
              (split_spaces
                (map (\<lambda>c. if is_kept c then c else CHR '' '')
                  (map toLowerCase_char text)));
          tokens = filter (\<lambda>word. word \<notin> set STOPWORDS) words
      in tokens)"

definition tokenizeQuery :: "string \<Rightarrow> string list" where
  "tokenizeQuery message = tokenize message"

section \<open>Index builder (core/indexer.ts)\<close>

text \<open>
  \<^verbatim>\<open>scanAllSkillDirectories\<close> reads each directory with \<^verbatim>\<open>scanSkillDirectory\<close>; the
  parameter is what those calls returned, in priority order. \<open>keepFirst\<close> is the body of
  the inner loop, on the pair of \<^verbatim>\<open>skills\<close> and \<^verbatim>\<open>seenNames\<close>: the first skill of each
  name is kept.
\<close>

definition keepFirst :: "SkillEntry list \<times> string set \<Rightarrow> SkillEntry \<Rightarrow> SkillEntry list \<times> string set" where
  "keepFirst state entry =
     (let (entries, seenNames) = state
      in if name entry \<notin> seenNames
         then (entries @ [entry], insert (name entry) seenNames)
         else (entries, seenNames))"

definition scanAllSkillDirectories :: "SkillEntry list list \<Rightarrow> SkillEntry list" where
  "scanAllSkillDirectories scanned =
     fst (foldl (\<lambda>state dirSkills. foldl keepFirst state dirSkills) ([], {}) scanned)"

text \<open>The loop body \<^verbatim>\<open>df[term] = (df[term] ?? 0) + 1\<close>: \<^verbatim>\<open>+\<close> adds to a number and
  concatenates to anything else.\<close>

definition df_increment :: "object \<Rightarrow> string \<Rightarrow> object" where
  "df_increment df term =
     object_set df term
       (case object_get df term of
          None \<Rightarrow> Count (0 + 1)
        | Some (Count n) \<Rightarrow> Count (n + 1)
        | Some NonNumeric \<Rightarrow> NonNumeric)"

definition calculateDocumentFrequency :: "SkillEntry list \<Rightarrow> object" where
  "calculateDocumentFrequency entries =
     foldl (\<lambda>df entry.
              let allTerms = Set_of (keywords entry @ tokens entry)
              in foldl df_increment df allTerms)
       Map.empty entries"

definition calculateAvgDocLength :: "SkillEntry list \<Rightarrow> number" where
  "calculateAvgDocLength entries =
     (if length entries = 0 then Fin 0
      else
        let totalLength =
              foldl (\<lambda>sum entry. sum + length (keywords entry) + length (tokens entry)) 0 entries
        in Fin (real totalLength) / Fin (real (length entries)))"

text \<open>
  \<^verbatim>\<open>buildIndex\<close> gets the skills from \<^verbatim>\<open>scanAllSkillDirectories\<close> and the time from the
  clock; both are parameters here: the sequence that the scan returned, and the time
  stamp.
\<close>

definition buildIndex :: "SkillEntry list \<Rightarrow> string \<Rightarrow> SkillIndex" where
  "buildIndex entries now =
     \<lparr>version = 1, generated = now, skills = entries,
      documentFrequency = calculateDocumentFrequency entries,
      avgDocLength = calculateAvgDocLength entries\<rparr>"

section \<open>BM25 scorer (core/scorer.ts)\<close>

text \<open>The scorer object is its three fields: the index, \<open>k1\<close> and \<open>b\<close>.\<close>

definition calculateIDF :: "SkillIndex \<Rightarrow> string \<Rightarrow> number" where
  "calculateIDF index term =
     (let N = length (skills index);
          n = (case object_get (documentFrequency index) term of
                 None \<Rightarrow> Count 0
               | Some v \<Rightarrow> v)
      in case n of
           Count c \<Rightarrow>
             if c = 0 then Fin 0
             else Math_log ((Fin (real N) - Fin (real c) + Fin 0.5) / (Fin (real c) + Fin 0.5) + Fin 1)
         | NonNumeric \<Rightarrow> NaN)"

definition getTermFrequency :: "SkillEntry \<Rightarrow> string \<Rightarrow> nat" where
  "getTermFrequency entry term =
     (let count = foldl (\<lambda>count keyword.
                           if keyword = term \<or> String_includes keyword term then count + 2
                           else count)
                    0 (keywords entry)
      in foldl (\<lambda>count token. if token = term then count + 1 else count) count (tokens entry))"

definition getDocLength :: "SkillEntry \<Rightarrow> nat" where
  "getDocLength entry = length (keywords entry) + length (tokens entry)"

text \<open>
  The body of the loop of \<^verbatim>\<open>scoreSkill\<close>, on the pair of its two variables
  (\<^verbatim>\<open>matchedKeywords\<close> and \<^verbatim>\<open>score\<close>). Local names that would clash with a field of
  the records are shortened: \<open>entry\<close> is the source's \<^verbatim>\<open>skill\<close>.
\<close>

definition scoreTerm ::
  "SkillIndex \<Rightarrow> number \<Rightarrow> number \<Rightarrow> SkillEntry \<Rightarrow> string list \<times> number \<Rightarrow> string
     \<Rightarrow> string list \<times> number" where
  "scoreTerm index k1 b entry state term =
     (let docLength = getDocLength entry;
          (matched, sofar) = state;
          tf = getTermFrequency entry term
      in if tf > 0 then
           let idf = calculateIDF index term;
               numerator = Fin (real tf) * (k1 + Fin 1);
               denominator =
                 Fin (real tf)
                 + k1 * (Fin 1 - b + b * (Fin (real docLength) / avgDocLength index))
           in (matched @ [term], sofar + idf * (numerator / denominator))
         else (matched, sofar))"

definition scoreSkill ::
  "SkillIndex \<Rightarrow> number \<Rightarrow> number \<Rightarrow> SkillEntry \<Rightarrow> string list \<Rightarrow> ScoringResult" where
  "scoreSkill index k1 b entry queryTerms =
     (let (matched, final) = foldl (scoreTerm index k1 b entry) ([], Fin 0) queryTerms
      in \<lparr>skill = entry, score = final, matchedKeywords = Set_of matched\<rparr>)"

definition scoreAll :: "SkillIndex \<Rightarrow> number \<Rightarrow> number \<Rightarrow> string \<Rightarrow> ScoringResult list" where
  "scoreAll index k1 b query =
     (let queryTerms = tokenizeQuery query
      in if length queryTerms = 0 then []
         else
           let results = map (\<lambda>entry. scoreSkill index k1 b entry queryTerms) (skills index)
           in Array_sort (\<lambda>a b. score b - score a) results)"

section \<open>Result selector (core/scorer.ts)\<close>

definition truthy :: "bool option \<Rightarrow> bool" where
  "truthy v = (v = Some True)"

definition alwaysIncludeSkills :: "SkillIndex \<Rightarrow> RouterConfig \<Rightarrow> SkillEntry list" where
  "alwaysIncludeSkills index config =
     filter (\<lambda>s. truthy (SkillEntry.alwaysInclude s) \<or> name s \<in> set (RouterConfig.alwaysInclude config))
       (skills index)"

definition scoreQuery :: "SkillIndex \<Rightarrow> string \<Rightarrow> RouterConfig \<Rightarrow> ScoringResult list" where
  "scoreQuery index query config =
     (let allResults = scoreAll index (bm25K1 config) (bm25B config) query;
          alwaysIncludeNames = set (map name (alwaysIncludeSkills index config));
          filteredResults =
            filter (\<lambda>r. score r \<ge> threshold config \<and> name (skill r) \<notin> alwaysIncludeNames)
              allResults;
          topResults = slice0 filteredResults (maxResults config);
          alwaysIncludeResults =
            map (\<lambda>entry.
                   case find (\<lambda>r. name (skill r) = name entry) allResults of
                     Some existing \<Rightarrow> existing
                   | None \<Rightarrow> \<lparr>skill = entry, score = Fin 0, matchedKeywords = []\<rparr>)
              (alwaysIncludeSkills index config)
      in alwaysIncludeResults @ topResults)"

section \<open>The index invariant\<close>

text \<open>
  The document frequency of a term in a collection: the number of documents whose
  keywords or tokens contain it. An index is consistent when every own property of its
  table is the count of its term, a term without an own property is in no document, and
  the average document length is that of the index's own documents.
\<close>

definition df_count :: "SkillEntry list \<Rightarrow> string \<Rightarrow> nat" where
  "df_count entries term =
     length (filter (\<lambda>entry. term \<in> set (keywords entry) \<union> set (tokens entry)) entries)"

definition consistent :: "SkillIndex \<Rightarrow> bool" where
  "consistent index \<longleftrightarrow>
     (\<forall>term. case documentFrequency index term of
               None \<Rightarrow> df_count (skills index) term = 0
             | Some (Count c) \<Rightarrow> c = df_count (skills index) term
             | Some NonNumeric \<Rightarrow> False)
     \<and> avgDocLength index = calculateAvgDocLength (skills index)"

text \<open>
  The two parts of the value of \<^verbatim>\<open>scoreQuery\<close>, named for the proofs: the element of
  \<^verbatim>\<open>alwaysIncludeResults\<close> made for one always-include document, and \<^verbatim>\<open>topResults\<close>.
\<close>

definition forcedResult :: "SkillIndex \<Rightarrow> string \<Rightarrow> RouterConfig \<Rightarrow> SkillEntry \<Rightarrow> ScoringResult" where
  "forcedResult index query config entry =
     (case find (\<lambda>r. name (skill r) = name entry)
             (scoreAll index (bm25K1 config) (bm25B config) query) of
        Some existing \<Rightarrow> existing
      | None \<Rightarrow> \<lparr>skill = entry, score = Fin 0, matchedKeywords = []\<rparr>)"

definition topResults :: "SkillIndex \<Rightarrow> string \<Rightarrow> RouterConfig \<Rightarrow> ScoringResult list" where
  "topResults index query config =
     slice0
       (filter (\<lambda>r. score r \<ge> threshold config
                   \<and> name (skill r) \<notin> set (map name (alwaysIncludeSkills index config)))
          (scoreAll index (bm25K1 config) (bm25B config) query))
       (maxResults config)"

section \<open>Example data\<close>

text \<open>The two documents of the test \<^verbatim>\<open>weighs keywords higher than tokens\<close>.\<close>

definition keyword_match :: SkillEntry where
  "keyword_match =
     \<lparr>name = ''keyword-match'', description = ''A test skill'', location = ''/path/to/skill-0'',
      keywords = [''github''], tokens = [], tools = None, alwaysInclude = None\<rparr>"

definition token_match :: SkillEntry where
  "token_match =
     \<lparr>name = ''token-match'', description = ''A test skill'', location = ''/path/to/skill-1'',
      keywords = [], tokens = [''github''], tools = None, alwaysInclude = None\<rparr>"

text \<open>
  The always-include scenario of the specification: \<open>router\<close> carries the flag, \<open>other\<close>
  does not. The configurations differ in the cap and the threshold.
\<close>

definition router :: SkillEntry where
  "router =
     \<lparr>name = ''router'', description = ''A test skill'', location = ''/path/to/skill-0'',
      keywords = [''routing''], tokens = [], tools = None, alwaysInclude = Some True\<rparr>"

definition other :: SkillEntry where
  "other =
     \<lparr>name = ''other'', description = ''A test skill'', location = ''/path/to/skill-1'',
      keywords = [''something''], tokens = [], tools = None, alwaysInclude = None\<rparr>"

definition router_index :: SkillIndex where
  "router_index = buildIndex [router, other] ''2026-01-01T00:00:00.000Z''"

definition github_index :: SkillIndex where
  "github_index = buildIndex [keyword_match, token_match] ''2026-01-01T00:00:00.000Z''"

definition strict_config :: RouterConfig where
  "strict_config =
     \<lparr>maxResults = 3, threshold = PInf, bm25K1 = Fin 1.2, bm25B = Fin 0.75, alwaysInclude = []\<rparr>"



text \<open>
  A document whose body holds the word \<open>constructor\<close>, and one whose keyword only
  contains it.
\<close>

definition constructor_doc :: SkillEntry where
  "constructor_doc =
     \<lparr>name = ''js-classes'', description = ''A test skill'', location = ''/path/to/skill-0'',
      keywords = [], tokens = [''constructor''], tools = None, alwaysInclude = None\<rparr>"

definition constructors_doc :: SkillEntry where
  "constructors_doc =
     \<lparr>name = ''js-classes'', description = ''A test skill'', location = ''/path/to/skill-0'',
      keywords = [''constructors''], tokens = [], tools = None, alwaysInclude = None\<rparr>"

definition constructors_index :: SkillIndex where
  "constructors_index = buildIndex [constructors_doc] ''2026-01-01T00:00:00.000Z''"

text \<open>Two of the documents of the test \<^verbatim>\<open>limits results by maxResults\<close>: equal but for
  the name.\<close>

definition skill_1 :: SkillEntry where
  "skill_1 =
     \<lparr>name = ''skill-1'', description = ''A test skill'', location = ''/path/to/skill-0'',
      keywords = [''test'', ''match''], tokens = [], tools = None, alwaysInclude = None\<rparr>"

definition skill_2 :: SkillEntry where
  "skill_2 =
     \<lparr>name = ''skill-2'', description = ''A test skill'', location = ''/path/to/skill-1'',
      keywords = [''test'', ''match''], tokens = [], tools = None, alwaysInclude = None\<rparr>"

definition tie_index :: SkillIndex where
  "tie_index = buildIndex [skill_1, skill_2] ''2026-01-01T00:00:00.000Z''"

section \<open>Properties of the helpers\<close>

lemma String_includes_iff_sublist: "String_includes k t \<longleftrightarrow> sublist t k"
  by (induction k) (auto simp: sublist_Cons_right)

lemma String_includes_refl: "String_includes k k"
  by (cases k) auto

lemma String_includes_or [simp]: "(k = t \<or> String_includes k t) \<longleftrightarrow> String_includes k t"
  using String_includes_refl by auto

lemma foldl_count_keywords:
  "foldl (\<lambda>count keyword. if P keyword then count + 2 else count) a xs
     = a + 2 * length (filter P xs)"
  for a :: nat
  by (induction xs arbitrary: a) auto

lemma foldl_count_tokens:
  "foldl (\<lambda>count token. if P token then count + 1 else count) a xs
     = a + length (filter P xs)"
  for a :: nat
  by (induction xs arbitrary: a) auto

lemma getTermFrequency_eq:
  "getTermFrequency entry term =
     2 * length (filter (\<lambda>keyword. String_includes keyword term) (keywords entry))
     + length (filter (\<lambda>token. token = term) (tokens entry))"
  unfolding getTermFrequency_def Let_def String_includes_or
  by (simp only: foldl_count_keywords foldl_count_tokens add_0)

lemma getTermFrequency_zero_iff:
  "getTermFrequency entry term = 0 \<longleftrightarrow>
     (\<forall>k \<in> set (keywords entry). \<not> String_includes k term) \<and> term \<notin> set (tokens entry)"
  by (auto simp: getTermFrequency_eq filter_empty_conv)

lemma set_Set_add_all: "set (Set_add_all seen xs) = set seen \<union> set xs"
  by (induction xs arbitrary: seen) auto

lemma distinct_Set_add_all: "distinct seen \<Longrightarrow> distinct (Set_add_all seen xs)"
  by (induction xs arbitrary: seen) auto

lemma set_Set_of: "set (Set_of xs) = set xs"
  by (simp add: Set_of_def set_Set_add_all)

lemma distinct_Set_of: "distinct (Set_of xs)"
  by (simp add: Set_of_def distinct_Set_add_all)


lemma foldl_scoreTerm_fst:
  "fst (foldl (scoreTerm index k1 b entry) (matched, sofar) queryTerms) =
     matched @ filter (\<lambda>t. 0 < getTermFrequency entry t) queryTerms"
  by (induction queryTerms arbitrary: matched sofar) (auto simp: scoreTerm_def Let_def)

lemma skill_scoreSkill: "skill (scoreSkill index k1 b entry queryTerms) = entry"
  by (simp add: scoreSkill_def split: prod.split)

lemma matchedKeywords_scoreSkill:
  "matchedKeywords (scoreSkill index k1 b entry queryTerms) =
     Set_of (filter (\<lambda>t. 0 < getTermFrequency entry t) queryTerms)"
  using foldl_scoreTerm_fst [of index k1 b entry "[]" "Fin 0" queryTerms]
  by (auto simp: scoreSkill_def split: prod.split)

lemma foldl_scoreTerm_no_match:
  "\<forall>t \<in> set queryTerms. getTermFrequency entry t = 0 \<Longrightarrow>
     foldl (scoreTerm index k1 b entry) st queryTerms = st"
  by (induction queryTerms arbitrary: st) (auto simp: scoreTerm_def Let_def split: prod.split)

lemma scoreSkill_no_match:
  "\<forall>t \<in> set queryTerms. getTermFrequency entry t = 0 \<Longrightarrow>
     scoreSkill index k1 b entry queryTerms = \<lparr>skill = entry, score = Fin 0, matchedKeywords = []\<rparr>"
  by (simp add: scoreSkill_def foldl_scoreTerm_no_match Set_of_def)


subsection \<open>Document frequency\<close>

lemma df_increment_other: "u \<noteq> t \<Longrightarrow> df_increment df u t = df t"
  by (simp add: df_increment_def object_set_def)

lemma df_increment_same_count:
  assumes "t \<notin> set Object_prototype_keys"
    and "df t = (if n = 0 then None else Some (Count n))"
  shows "df_increment df t t = Some (Count (Suc n))"
proof -
  have "t \<noteq> ''__proto__''"
    using assms(1) by (auto simp: Object_prototype_keys_def)
  then show ?thesis
    using assms by (simp add: df_increment_def object_set_def object_get_def)
qed

lemma foldl_df_increment_absent:
  "t \<notin> set ts \<Longrightarrow> foldl df_increment df ts t = df t"
  by (induction ts arbitrary: df) (auto simp: df_increment_other)

lemma foldl_df_increment_present:
  assumes "t \<notin> set Object_prototype_keys" and "distinct ts" and "t \<in> set ts"
    and "df t = (if n = 0 then None else Some (Count n))"
  shows "foldl df_increment df ts t = Some (Count (Suc n))"
  using assms(2-4)
proof (induction ts arbitrary: df)
  case Nil
  then show ?case by simp
next
  case (Cons u ts)
  show ?case
  proof (cases "u = t")
    case True
    then have "t \<notin> set ts" using Cons.prems(1) by simp
    then have "foldl df_increment (df_increment df t) ts t = df_increment df t t"
      by (rule foldl_df_increment_absent)
    then show ?thesis
      using True df_increment_same_count [of t df n] assms(1) Cons.prems(3) by simp
  next
    case False
    then have "df_increment df u t = (if n = 0 then None else Some (Count n))"
      using Cons.prems(3) by (simp add: df_increment_other)
    moreover have "distinct ts" "t \<in> set ts"
      using Cons.prems False by auto
    ultimately show ?thesis
      using Cons.IH by simp
  qed
qed

lemma foldl_documentFrequency:
  assumes "t \<notin> set Object_prototype_keys"
    and "df t = (if n = 0 then None else Some (Count n))"
  shows "foldl (\<lambda>df entry. foldl df_increment df (Set_of (keywords entry @ tokens entry)))
           df entries t =
         (if n + df_count entries t = 0 then None else Some (Count (n + df_count entries t)))"
  using assms(2)
proof (induction entries arbitrary: df n)
  case Nil
  then show ?case by (simp add: df_count_def)
next
  case (Cons e entries)
  let ?ts = "Set_of (keywords e @ tokens e)"
  let ?df = "foldl df_increment df ?ts"
  show ?case
  proof (cases "t \<in> set (keywords e) \<union> set (tokens e)")
    case True
    then have "t \<in> set ?ts" by (simp add: set_Set_of)
    then have "?df t = Some (Count (Suc n))"
      using foldl_df_increment_present [of t ?ts df n] assms(1) distinct_Set_of [of "keywords e @ tokens e"]
        Cons.prems by blast
    then have "?df t = (if Suc n = 0 then None else Some (Count (Suc n)))" by simp
    from Cons.IH [of ?df "Suc n"] this True show ?thesis
      by (simp add: df_count_def)
  next
    case False
    then have "t \<notin> set ?ts" by (simp add: set_Set_of)
    then have "?df t = (if n = 0 then None else Some (Count n))"
      using Cons.prems by (simp add: foldl_df_increment_absent)
    from Cons.IH [of ?df n] this False show ?thesis
      by (simp add: df_count_def)
  qed
qed

lemma calculateDocumentFrequency_count:
  assumes "t \<notin> set Object_prototype_keys"
  shows "calculateDocumentFrequency entries t =
           (if df_count entries t = 0 then None else Some (Count (df_count entries t)))"
  using foldl_documentFrequency [OF assms, of Map.empty 0 entries]
  by (simp add: calculateDocumentFrequency_def)

lemma foldl_documentFrequency_untouched:
  assumes "\<forall>e \<in> set entries. t \<notin> set (keywords e) \<union> set (tokens e)"
  shows "foldl (\<lambda>df entry. foldl df_increment df (Set_of (keywords entry @ tokens entry)))
           df entries t = df t"
  using assms
  by (induction entries arbitrary: df) (auto simp: foldl_df_increment_absent set_Set_of)

lemma df_count_zero_iff:
  "df_count entries t = 0 \<longleftrightarrow> (\<forall>e \<in> set entries. t \<notin> set (keywords e) \<union> set (tokens e))"
  by (auto simp: df_count_def filter_empty_conv)

lemma consistent_own:
  assumes "consistent index"
  shows "(documentFrequency index t = None \<and> df_count (skills index) t = 0)
       \<or> documentFrequency index t = Some (Count (df_count (skills index) t))"
proof -
  have "case documentFrequency index t of
          None \<Rightarrow> df_count (skills index) t = 0
        | Some (Count c) \<Rightarrow> c = df_count (skills index) t
        | Some NonNumeric \<Rightarrow> False"
    using assms by (simp add: consistent_def)
  then show ?thesis
    by (auto split: option.splits jsvalue.splits)
qed

lemma consistent_own_pos:
  assumes "consistent index" and "0 < df_count (skills index) t"
  shows "documentFrequency index t = Some (Count (df_count (skills index) t))"
  using consistent_own [OF assms(1), of t] assms(2) by auto

lemma consistent_avgDocLength:
  "consistent index \<Longrightarrow> avgDocLength index = calculateAvgDocLength (skills index)"
  by (simp add: consistent_def)

lemma consistent_buildIndex:
  assumes "\<forall>e \<in> set entries. \<forall>t \<in> set (keywords e) \<union> set (tokens e).
             t \<notin> set Object_prototype_keys"
  shows "consistent (buildIndex entries now)"
proof -
  have "calculateDocumentFrequency entries t =
          (if df_count entries t = 0 then None else Some (Count (df_count entries t)))" for t
  proof (cases "t \<in> set Object_prototype_keys")
    case False
    then show ?thesis by (rule calculateDocumentFrequency_count)
  next
    case True
    then have *: "\<forall>e \<in> set entries. t \<notin> set (keywords e) \<union> set (tokens e)"
      using assms by blast
    then have "df_count entries t = 0" by (simp add: df_count_zero_iff)
    moreover have "calculateDocumentFrequency entries t = None"
      using foldl_documentFrequency_untouched [OF *, of Map.empty]
      by (simp add: calculateDocumentFrequency_def)
    ultimately show ?thesis by simp
  qed
  then show ?thesis by (simp add: consistent_def buildIndex_def)
qed

lemma skills_buildIndex [simp]: "skills (buildIndex entries now) = entries"
  by (simp add: buildIndex_def)

lemma documentFrequency_buildIndex_absent:
  assumes "\<forall>e \<in> set entries. t \<notin> set (keywords e) \<union> set (tokens e)"
  shows "documentFrequency (buildIndex entries now) t = None"
  using foldl_documentFrequency_untouched [OF assms, of Map.empty]
  by (simp add: buildIndex_def calculateDocumentFrequency_def)

lemma keepFirst_invariant:
  assumes "distinct (map name (fst state))" and "snd state = set (map name (fst state))"
  shows "distinct (map name (fst (keepFirst state entry)))
       \<and> snd (keepFirst state entry) = set (map name (fst (keepFirst state entry)))"
  using assms by (cases state) (auto simp: keepFirst_def)

lemma foldl_keepFirst_invariant:
  assumes "distinct (map name (fst state))" and "snd state = set (map name (fst state))"
  shows "distinct (map name (fst (foldl keepFirst state dirSkills)))
       \<and> snd (foldl keepFirst state dirSkills)
           = set (map name (fst (foldl keepFirst state dirSkills)))"
  using assms
proof (induction dirSkills arbitrary: state)
  case Nil
  then show ?case by simp
next
  case (Cons entry dirSkills)
  show ?case
    using Cons.IH [of "keepFirst state entry"] keepFirst_invariant [OF Cons.prems, of entry]
    by simp
qed

lemma scan_invariant:
  assumes "distinct (map name (fst state))" and "snd state = set (map name (fst state))"
  shows "distinct (map name (fst (foldl (\<lambda>state dirSkills. foldl keepFirst state dirSkills)
                                    state scanned)))"
  using assms
proof (induction scanned arbitrary: state)
  case Nil
  then show ?case by simp
next
  case (Cons dirSkills scanned)
  show ?case
    using Cons.IH [of "foldl keepFirst state dirSkills"]
      foldl_keepFirst_invariant [OF Cons.prems, of dirSkills]
    by simp
qed

lemma distinct_scanAllSkillDirectories:
  "distinct (map name (scanAllSkillDirectories scanned))"
  unfolding scanAllSkillDirectories_def
  by (rule scan_invariant) simp_all

lemma distinct_names_buildIndex:
  "distinct (map name (skills (buildIndex (scanAllSkillDirectories scanned) now)))"
  by (simp add: distinct_scanAllSkillDirectories)

lemma df_increment_proto:
  assumes "t \<in> set Object_prototype_keys" and "df t \<in> {None, Some NonNumeric}"
  shows "df_increment df u t \<in> {None, Some NonNumeric}"
  using assms by (cases "u = t") (auto simp: df_increment_def object_set_def object_get_def)

lemma foldl_df_increment_proto:
  assumes "t \<in> set Object_prototype_keys" and "df t \<in> {None, Some NonNumeric}"
  shows "foldl df_increment df ts t \<in> {None, Some NonNumeric}"
  using assms(2)
  by (induction ts arbitrary: df) (use assms(1) df_increment_proto in \<open>simp_all\<close>)

lemma calculateDocumentFrequency_proto_own:
  assumes "t \<in> set Object_prototype_keys"
  shows "calculateDocumentFrequency entries t \<in> {None, Some NonNumeric}"
proof -
  have "foldl (\<lambda>df entry. foldl df_increment df (Set_of (keywords entry @ tokens entry)))
          df entries t \<in> {None, Some NonNumeric}"
    if "df t \<in> {None, Some NonNumeric}" for df
    using that
    by (induction entries arbitrary: df) (use assms foldl_df_increment_proto in \<open>simp_all\<close>)
  then show ?thesis by (simp add: calculateDocumentFrequency_def)
qed

lemma calculateDocumentFrequency_proto:
  assumes "t \<in> set Object_prototype_keys"
  shows "object_get (calculateDocumentFrequency entries) t = Some NonNumeric"
  using calculateDocumentFrequency_proto_own [OF assms, of entries] assms
  by (auto simp: object_get_def)


lemma Fin_minus [simp]: "Fin x - Fin y = Fin (x - y)"
  by (simp add: minus_number_def)

lemma Fin_le [simp]: "Fin x \<le> Fin y \<longleftrightarrow> x \<le> y"
  by simp

lemma Fin_less [simp]: "Fin x < Fin y \<longleftrightarrow> x < y"
  by (auto simp: less_number_def)

lemma idf_argument:
  fixes N c :: nat
  shows "(real N - real c + 0.5) / (real c + 0.5) + 1 = (real N + 1) / (real c + 0.5)"
  by (simp add: field_simps)

lemma calculateIDF_count:
  assumes "documentFrequency index term = Some (Count c)"
  shows "calculateIDF index term =
           (if c = 0 then Fin 0
            else Fin (ln ((real (length (skills index)) - real c + 0.5) / (real c + 0.5) + 1)))"
proof -
  have "0 < (real (length (skills index)) - real c + 0.5) / (real c + 0.5) + 1"
    unfolding idf_argument by simp
  moreover have "real c + 0.5 \<noteq> 0"
    by (simp add: add_nonneg_eq_0_iff)
  ultimately show ?thesis
    using assms by (simp add: calculateIDF_def object_get_def Let_def)
qed

lemma calculateIDF_absent:
  assumes "documentFrequency index term = None" and "term \<notin> set Object_prototype_keys"
  shows "calculateIDF index term = Fin 0"
  using assms by (simp add: calculateIDF_def object_get_def)

lemma calculateIDF_inherited:
  assumes "documentFrequency index term = None" and "term \<in> set Object_prototype_keys"
  shows "calculateIDF index term = NaN"
  using assms by (simp add: calculateIDF_def object_get_def)

lemma df_count_le: "df_count entries t \<le> length entries"
  by (simp add: df_count_def)

lemma idf_formula_nonneg:
  fixes N c :: nat
  assumes "c \<le> N"
  shows "0 \<le> ln ((real N - real c + 0.5) / (real c + 0.5) + 1)"
proof -
  have "1 \<le> (real N + 1) / (real c + 0.5)"
    using assms by (simp add: field_simps)
  then show ?thesis
    unfolding idf_argument by simp
qed


lemma consistent_idf_nonneg:
  assumes "consistent index" and "term \<notin> set Object_prototype_keys"
  shows "\<exists>i. 0 \<le> i \<and> calculateIDF index term = Fin i"
proof -
  consider (absent) "documentFrequency index term = None"
    | (count) "documentFrequency index term = Some (Count (df_count (skills index) term))"
    using consistent_own [OF assms(1), of "term"] by auto
  then show ?thesis
  proof cases
    case absent
    then show ?thesis
      using assms(2) by (simp add: calculateIDF_absent)
  next
    case count
    then show ?thesis
      using idf_formula_nonneg [OF df_count_le, of "skills index" "term"]
      by (simp add: calculateIDF_count)
  qed
qed


lemma foldl_sum_docLength:
  "foldl (\<lambda>sum entry. sum + length (keywords entry) + length (tokens entry)) a entries
     = a + sum_list (map getDocLength entries)"
  for a :: nat
  by (induction entries arbitrary: a) (auto simp: getDocLength_def)

lemma calculateAvgDocLength_eq:
  "entries \<noteq> [] \<Longrightarrow>
     calculateAvgDocLength entries =
       Fin (real (sum_list (map getDocLength entries)) / real (length entries))"
  by (simp add: calculateAvgDocLength_def foldl_sum_docLength)

lemma consistent_avgDocLength_pos:
  assumes "consistent index" and "entry \<in> set (skills index)" and "0 < getDocLength entry"
  shows "\<exists>a. 0 < a \<and> avgDocLength index = Fin a"
proof -
  have ne: "skills index \<noteq> []" using assms(2) by auto
  have "getDocLength entry \<le> sum_list (map getDocLength (skills index))"
    using assms(2) by (simp add: member_le_sum_list)
  then have "0 < sum_list (map getDocLength (skills index))"
    using assms(3) by linarith
  then have "0 < real (sum_list (map getDocLength (skills index))) / real (length (skills index))"
    using ne by simp
  moreover have "avgDocLength index = calculateAvgDocLength (skills index)"
    using assms(1) by (rule consistent_avgDocLength)
  ultimately show ?thesis
    using ne by (simp add: calculateAvgDocLength_eq)
qed

lemma getTermFrequency_pos_docLength:
  "0 < getTermFrequency entry term \<Longrightarrow> 0 < getDocLength entry"
  by (auto simp: getTermFrequency_eq getDocLength_def)


lemma scoreTerm_skip:
  "getTermFrequency entry t = 0 \<Longrightarrow> scoreTerm index k1 b entry st t = st"
  by (simp add: scoreTerm_def Let_def split: prod.split)

lemma scoreTerm_finite:
  assumes "0 < getTermFrequency entry t"
    and "calculateIDF index t = Fin i"
    and "avgDocLength index = Fin a" and "a \<noteq> 0"
    and "real (getTermFrequency entry t)
           + k * (1 - \<beta> + \<beta> * (real (getDocLength entry) / a)) \<noteq> 0"
  shows "scoreTerm index (Fin k) (Fin \<beta>) entry (m, Fin s) t =
           (m @ [t],
            Fin (s + i * (real (getTermFrequency entry t) * (k + 1)
                          / (real (getTermFrequency entry t)
                             + k * (1 - \<beta> + \<beta> * (real (getDocLength entry) / a))))))"
  using assms by (simp add: scoreTerm_def Let_def)

lemma bm25_denominator_pos:
  fixes k \<beta> a :: real and tf dl :: nat
  assumes "0 < tf" and "0 \<le> k" and "0 \<le> \<beta>" and "\<beta> \<le> 1" and "0 < a"
  shows "0 < real tf + k * (1 - \<beta> + \<beta> * (real dl / a))"
proof -
  have "0 \<le> \<beta> * (real dl / a)"
    using assms by simp
  then have "0 \<le> k * (1 - \<beta> + \<beta> * (real dl / a))"
    using assms by simp
  then show ?thesis
    using assms(1) by linarith
qed


lemma foldl_scoreTerm_nonneg:
  assumes "consistent index" and "entry \<in> set (skills index)"
    and "0 \<le> k" and "0 \<le> \<beta>" and "\<beta> \<le> 1"
    and "\<forall>t \<in> set queryTerms. t \<notin> set Object_prototype_keys"
    and "0 \<le> s"
  shows "\<exists>m' x. foldl (scoreTerm index (Fin k) (Fin \<beta>) entry) (m, Fin s) queryTerms = (m', Fin x)
           \<and> 0 \<le> x"
  using assms(6,7)
proof (induction queryTerms arbitrary: m s)
  case Nil
  then show ?case by simp
next
  case (Cons t ts)
  show ?case
  proof (cases "getTermFrequency entry t = 0")
    case True
    then show ?thesis
      using Cons.IH [of s m] Cons.prems by (simp add: scoreTerm_skip)
  next
    case False
    then have tf: "0 < getTermFrequency entry t" by simp
    obtain i where i: "0 \<le> i" "calculateIDF index t = Fin i"
      using consistent_idf_nonneg [OF assms(1), of t] Cons.prems(1) by auto
    obtain a where a: "0 < a" "avgDocLength index = Fin a"
      using consistent_avgDocLength_pos [OF assms(1,2) getTermFrequency_pos_docLength [OF tf]]
      by blast
    let ?den = "real (getTermFrequency entry t)
                  + k * (1 - \<beta> + \<beta> * (real (getDocLength entry) / a))"
    let ?x = "i * (real (getTermFrequency entry t) * (k + 1) / ?den)"
    have den: "0 < ?den"
      using bm25_denominator_pos [OF tf assms(3,4,5) a(1)] .
    have step: "scoreTerm index (Fin k) (Fin \<beta>) entry (m, Fin s) t = (m @ [t], Fin (s + ?x))"
      using scoreTerm_finite [OF tf i(2) a(2)] a(1) den by simp
    have "0 \<le> ?x"
      using i(1) den assms(3) by simp
    then have "0 \<le> s + ?x" using Cons.prems(2) by simp
    from Cons.IH [OF _ this, of "m @ [t]"] Cons.prems(1) step show ?thesis
      by simp
  qed
qed

lemma scoreSkill_nonneg:
  assumes "consistent index" and "entry \<in> set (skills index)"
    and "0 \<le> k" and "0 \<le> \<beta>" and "\<beta> \<le> 1"
    and "\<forall>t \<in> set queryTerms. t \<notin> set Object_prototype_keys"
  shows "\<exists>x. 0 \<le> x \<and> score (scoreSkill index (Fin k) (Fin \<beta>) entry queryTerms) = Fin x"
proof -
  obtain m' x where
    "foldl (scoreTerm index (Fin k) (Fin \<beta>) entry) ([], Fin 0) queryTerms = (m', Fin x)" "0 \<le> x"
    using foldl_scoreTerm_nonneg [OF assms, of 0 "[]"] by auto
  then show ?thesis
    by (simp add: scoreSkill_def)
qed


subsection \<open>The sort\<close>

lemma number_le_total: "x \<noteq> NaN \<Longrightarrow> y \<noteq> NaN \<Longrightarrow> x \<le> y \<or> y \<le> (x :: number)"
  by (cases x; cases y) auto

lemma number_le_trans: "x \<le> y \<Longrightarrow> y \<le> z \<Longrightarrow> x \<le> (z :: number)"
  by (cases x; cases y; cases z) auto

lemma number_le_refl: "x \<noteq> NaN \<Longrightarrow> x \<le> (x :: number)"
  by (cases x) auto

lemma comparator_positive_iff:
  "x \<noteq> NaN \<Longrightarrow> y \<noteq> NaN \<Longrightarrow> Fin 0 < y - x \<longleftrightarrow> x < (y :: number)"
  by (cases x; cases y) (auto simp: minus_number_def less_number_def)

lemma comparator_positive_neq: "Fin 0 < y - x \<Longrightarrow> x \<noteq> (y :: number)"
  by (cases x; cases y) (auto simp: minus_number_def less_number_def)

lemma mset_sort_insert: "mset (sort_insert cmp x ys) = add_mset x (mset ys)"
  by (induction ys) auto

lemma mset_Array_sort: "mset (Array_sort cmp xs) = mset xs"
  by (induction xs) (auto simp: Array_sort_def mset_sort_insert)

lemma set_Array_sort: "set (Array_sort cmp xs) = set xs"
  using mset_Array_sort [of cmp xs] by (metis set_mset_mset)

lemma length_Array_sort: "length (Array_sort cmp xs) = length xs"
  using mset_Array_sort [of cmp xs] by (metis size_mset)

lemma filter_sort_insert_score:
  "filter (\<lambda>r. score r = v) (sort_insert (\<lambda>a b. score b - score a) x ys)
     = filter (\<lambda>r. score r = v) (x # ys)"
proof (induction ys)
  case Nil
  then show ?case by simp
next
  case (Cons y ys)
  show ?case
  proof (cases "Fin 0 < score y - score x")
    case True
    then have "score x \<noteq> score y" by (rule comparator_positive_neq)
    then show ?thesis using True Cons.IH by auto
  next
    case False
    then show ?thesis by simp
  qed
qed

lemma filter_Array_sort_score:
  "filter (\<lambda>r. score r = v) (Array_sort (\<lambda>a b. score b - score a) xs)
     = filter (\<lambda>r. score r = v) xs"
proof (induction xs)
  case Nil
  then show ?case by (simp add: Array_sort_def)
next
  case (Cons x xs)
  have "Array_sort (\<lambda>a b. score b - score a) (x # xs)
          = sort_insert (\<lambda>a b. score b - score a) x (Array_sort (\<lambda>a b. score b - score a) xs)"
    by (simp add: Array_sort_def)
  then show ?case
    using Cons.IH by (simp add: filter_sort_insert_score)
qed

lemma sorted_sort_insert:
  assumes "sorted_wrt (\<lambda>r r'. score r' \<le> score r) ys"
    and "score x \<noteq> NaN" and "\<forall>y \<in> set ys. score y \<noteq> NaN"
  shows "sorted_wrt (\<lambda>r r'. score r' \<le> score r) (sort_insert (\<lambda>a b. score b - score a) x ys)"
  using assms(1,3)
proof (induction ys)
  case Nil
  then show ?case by simp
next
  case (Cons y ys)
  have y: "score y \<noteq> NaN" using Cons.prems(2) by simp
  show ?case
  proof (cases "Fin 0 < score y - score x")
    case True
    then have "score x \<le> score y"
      using comparator_positive_iff [OF assms(2) y] by (simp add: less_number_def)
    moreover have "set (sort_insert (\<lambda>a b. score b - score a) x ys) = insert x (set ys)"
      using mset_sort_insert [of "\<lambda>a b. score b - score a" x ys]
      by (metis set_mset_add_mset_insert set_mset_mset)
    ultimately show ?thesis
      using True Cons by auto
  next
    case False
    then have "\<not> score x < score y"
      using comparator_positive_iff [OF assms(2) y] by simp
    then have yx: "score y \<le> score x"
      using number_le_total [OF assms(2) y] by (auto simp: less_number_def)
    then have "\<forall>z \<in> set ys. score z \<le> score x"
      using Cons.prems(1) number_le_trans by auto
    then show ?thesis
      using False yx Cons.prems(1) by simp
  qed
qed

lemma sorted_Array_sort:
  assumes "\<forall>x \<in> set xs. score x \<noteq> NaN"
  shows "sorted_wrt (\<lambda>r r'. score r' \<le> score r) (Array_sort (\<lambda>a b. score b - score a) xs)"
  using assms
proof (induction xs)
  case Nil
  then show ?case by (simp add: Array_sort_def)
next
  case (Cons x xs)
  have "Array_sort (\<lambda>a b. score b - score a) (x # xs)
          = sort_insert (\<lambda>a b. score b - score a) x (Array_sort (\<lambda>a b. score b - score a) xs)"
    by (simp add: Array_sort_def)
  then show ?case
    using Cons sorted_sort_insert [of "Array_sort (\<lambda>a b. score b - score a) xs" x]
    by (simp add: set_Array_sort)
qed

subsection \<open>scoreAll and scoreQuery\<close>

lemma scoreAll_empty: "tokenizeQuery query = [] \<Longrightarrow> scoreAll index k1 b query = []"
  by (simp add: scoreAll_def)

lemma scoreAll_sorted_map:
  "tokenizeQuery query \<noteq> [] \<Longrightarrow>
     scoreAll index k1 b query =
       Array_sort (\<lambda>a b. score b - score a)
         (map (\<lambda>entry. scoreSkill index k1 b entry (tokenizeQuery query)) (skills index))"
  by (simp add: scoreAll_def Let_def)

lemma scoreAll_member:
  assumes "r \<in> set (scoreAll index k1 b query)"
  shows "skill r \<in> set (skills index)
       \<and> r = scoreSkill index k1 b (skill r) (tokenizeQuery query)
       \<and> tokenizeQuery query \<noteq> []"
proof (cases "tokenizeQuery query = []")
  case True
  then show ?thesis using assms by (simp add: scoreAll_empty)
next
  case False
  then obtain entry where "entry \<in> set (skills index)"
    "r = scoreSkill index k1 b entry (tokenizeQuery query)"
    using assms by (auto simp: scoreAll_sorted_map set_Array_sort)
  then show ?thesis using False by (simp add: skill_scoreSkill)
qed

lemma scoreAll_has_entry:
  assumes "tokenizeQuery query \<noteq> []" and "entry \<in> set (skills index)"
  shows "scoreSkill index k1 b entry (tokenizeQuery query) \<in> set (scoreAll index k1 b query)"
  using assms by (simp add: scoreAll_sorted_map set_Array_sort)

lemma find_SomeD: "find P xs = Some x \<Longrightarrow> x \<in> set xs \<and> P x"
  by (induction xs) (auto split: if_splits)

lemma find_NoneD: "find P xs = None \<Longrightarrow> x \<in> set xs \<Longrightarrow> \<not> P x"
  by (induction xs) (auto split: if_splits)

lemma scoreQuery_partition:
  "scoreQuery index query config =
     map (forcedResult index query config) (alwaysIncludeSkills index config)
     @ topResults index query config"
  by (simp add: scoreQuery_def forcedResult_def topResults_def Let_def)

lemma set_slice0: "set (slice0 xs e) \<subseteq> set xs"
  by (auto simp: slice0_def dest: in_set_takeD)


lemma topResults_member:
  assumes "r \<in> set (topResults index query config)"
  shows "threshold config \<le> score r
       \<and> name (skill r) \<notin> set (map name (alwaysIncludeSkills index config))
       \<and> r \<in> set (scoreAll index (bm25K1 config) (bm25B config) query)"
  using assms set_slice0 unfolding topResults_def by fastforce

lemma forcedResult_cases:
  "forcedResult index query config entry \<in> set (scoreAll index (bm25K1 config) (bm25B config) query)
     \<and> name (skill (forcedResult index query config entry)) = name entry
   \<or> forcedResult index query config entry = \<lparr>skill = entry, score = Fin 0, matchedKeywords = []\<rparr>"
  by (auto simp: forcedResult_def split: option.split dest: find_SomeD)

lemma name_forcedResult:
  "name (skill (forcedResult index query config entry)) = name entry"
  using forcedResult_cases [of index query config entry] by auto

lemma alwaysIncludeSkills_subset: "set (alwaysIncludeSkills index config) \<subseteq> set (skills index)"
  by (auto simp: alwaysIncludeSkills_def)

lemma distinct_names_eq:
  assumes "distinct (map name entries)" and "x \<in> set entries" and "y \<in> set entries"
    and "name x = name y"
  shows "x = y"
  using assms by (meson distinct_map inj_onD)

lemma skill_forcedResult:
  assumes "distinct (map name (skills index))" and "entry \<in> set (skills index)"
  shows "skill (forcedResult index query config entry) = entry"
proof -
  consider
    (found) "forcedResult index query config entry
               \<in> set (scoreAll index (bm25K1 config) (bm25B config) query)"
      "name (skill (forcedResult index query config entry)) = name entry"
  | (synthetic) "forcedResult index query config entry
               = \<lparr>skill = entry, score = Fin 0, matchedKeywords = []\<rparr>"
    using forcedResult_cases [of index query config entry] by blast
  then show ?thesis
  proof cases
    case found
    then have "skill (forcedResult index query config entry) \<in> set (skills index)"
      using scoreAll_member by blast
    then show ?thesis
      using distinct_names_eq [OF assms(1) _ assms(2)] found(2) by blast
  next
    case synthetic
    then show ?thesis by simp
  qed
qed

lemma forcedResult_no_overlap:
  assumes "distinct (map name (skills index))" and "entry \<in> set (skills index)"
    and "\<forall>t \<in> set (tokenizeQuery query). getTermFrequency entry t = 0"
  shows "forcedResult index query config entry
           = \<lparr>skill = entry, score = Fin 0, matchedKeywords = []\<rparr>"
proof -
  consider
    (found) "forcedResult index query config entry
               \<in> set (scoreAll index (bm25K1 config) (bm25B config) query)"
  | (synthetic) "forcedResult index query config entry
               = \<lparr>skill = entry, score = Fin 0, matchedKeywords = []\<rparr>"
    using forcedResult_cases [of index query config entry] by blast
  then show ?thesis
  proof cases
    case found
    then have "forcedResult index query config entry
                 = scoreSkill index (bm25K1 config) (bm25B config)
                     (skill (forcedResult index query config entry)) (tokenizeQuery query)"
      using scoreAll_member by blast
    then have "forcedResult index query config entry
                 = scoreSkill index (bm25K1 config) (bm25B config) entry (tokenizeQuery query)"
      using skill_forcedResult [OF assms(1,2)] by simp
    then show ?thesis
      using scoreSkill_no_match [OF assms(3)] by simp
  next
    case synthetic
    then show ?thesis .
  qed
qed




lemma filter_distinct_key:
  "distinct (map f xs) \<Longrightarrow> x \<in> set xs \<Longrightarrow> filter (\<lambda>e. f e = f x) xs = [x]"
proof (induction xs)
  case Nil
  then show ?case by simp
next
  case (Cons e es)
  show ?case
  proof (cases "e = x")
    case True
    then have "\<forall>e' \<in> set es. f e' \<noteq> f x"
      using Cons.prems(1) by (auto simp: image_iff)
    then show ?thesis
      using True by (simp add: filter_empty_conv)
  next
    case False
    then have "x \<in> set es" using Cons.prems(2) by simp
    moreover have "f e \<noteq> f x"
      using Cons.prems(1) calculation by (auto simp: image_iff)
    ultimately show ?thesis
      using Cons by simp
  qed
qed

subsection \<open>Evaluating the tokenizer\<close>

lemmas tokenize_eval =
  tokenizeQuery_def tokenize_def STOPWORDS_def MIN_TOKEN_LENGTH_def is_kept_def is_space_def
  toLowerCase_char_def

lemma tokenizeQuery_github: "tokenizeQuery ''github'' = [''github'']"
  by (simp add: tokenize_eval)

lemma tokenizeQuery_unrelated:
  "tokenizeQuery ''unrelated query xyz'' = [''unrelated'', ''query'', ''xyz'']"
  by (simp add: tokenize_eval)

subsection \<open>The example index\<close>

lemma prototype_free_github:
  "\<forall>e \<in> set [keyword_match, token_match]. \<forall>t \<in> set (keywords e) \<union> set (tokens e).
     t \<notin> set Object_prototype_keys"
  by (simp add: keyword_match_def token_match_def Object_prototype_keys_def)

lemma consistent_github_index: "consistent github_index"
  unfolding github_index_def using prototype_free_github by (rule consistent_buildIndex)

lemma skills_github_index: "skills github_index = [keyword_match, token_match]"
  by (simp add: github_index_def buildIndex_def)




lemma not_le_NaN [simp]: "\<not> x \<le> NaN"
  by (cases x) simp_all

lemma NaN_not_sorted:
  assumes "r \<in> set xs" and "score r = NaN" and "2 \<le> length xs"
  shows "\<not> sorted_wrt (\<lambda>r r'. score r \<ge> score r') xs"
proof
  assume sorted: "sorted_wrt (\<lambda>r r'. score r \<ge> score r') xs"
  obtain i where i: "i < length xs" "xs ! i = r"
    using assms(1) by (auto simp: in_set_conv_nth)
  obtain j where j: "j < length xs" "j \<noteq> i"
    using assms(3) by (metis One_nat_def Suc_1 Suc_le_lessD less_nat_zero_code linorder_neqE_nat
        not_less_eq zero_less_Suc)
  show False
  proof (cases "i < j")
    case True
    then have "score (xs ! i) \<ge> score (xs ! j)"
      using sorted j(1) by (simp add: sorted_wrt_iff_nth_less)
    then show False using i(2) assms(2) by simp
  next
    case False
    then have "j < i" using j(2) by simp
    then have "score (xs ! j) \<ge> score (xs ! i)"
      using sorted i(1) by (simp add: sorted_wrt_iff_nth_less)
    then show False using i(2) assms(2) by simp
  qed
qed


lemma df_github: "documentFrequency github_index ''github'' = Some (Count 2)"
proof -
  have "df_count (skills github_index) ''github'' = 2"
    by (simp add: skills_github_index df_count_def keyword_match_def token_match_def)
  then show ?thesis
    using consistent_own_pos [OF consistent_github_index, of "''github''"] by simp
qed

lemma avg_github: "avgDocLength github_index = Fin 1"
  by (simp add: github_index_def buildIndex_def calculateAvgDocLength_def keyword_match_def
      token_match_def)

lemma idf_github: "calculateIDF github_index ''github'' = Fin (ln (6 / 5))"
  using calculateIDF_count [OF df_github] by (simp add: skills_github_index)

lemma tf_keyword_match: "getTermFrequency keyword_match ''github'' = 2"
  by (simp add: getTermFrequency_eq keyword_match_def)

lemma tf_token_match: "getTermFrequency token_match ''github'' = 1"
  by (simp add: getTermFrequency_eq token_match_def)

lemma docLength_examples: "getDocLength keyword_match = 1" "getDocLength token_match = 1"
  by (simp_all add: getDocLength_def keyword_match_def token_match_def)

lemma score_github:
  "score (scoreSkill github_index k1 b entry [''github'']) =
     (if 0 < getTermFrequency entry ''github'' then
        Fin 0 + Fin (ln (6 / 5))
                * (Fin (real (getTermFrequency entry ''github'')) * (k1 + Fin 1)
                   / (Fin (real (getTermFrequency entry ''github''))
                      + k1 * (Fin 1 - b + b * (Fin (real (getDocLength entry)) / Fin 1))))
      else Fin 0)"
  by (simp add: scoreSkill_def scoreTerm_def Let_def idf_github avg_github)

subsection \<open>Results of scoreQuery\<close>



subsection \<open>Comparing the scores of two documents\<close>







subsection \<open>Empty queries and the inverse document frequency\<close>

lemma tokenize_Nil_iff:
  "tokenize text = [] \<longleftrightarrow>
     (\<forall>piece \<in> set (split_spaces
                      (map (\<lambda>c. if is_kept c then c else CHR '' '') (map toLowerCase_char text))).
        length piece < MIN_TOKEN_LENGTH \<or> piece \<in> set STOPWORDS)"
  by (auto simp: tokenize_def Let_def filter_empty_conv)

lemma calculateIDF_formula:
  assumes "consistent index"
    and "term \<notin> set Object_prototype_keys \<or> 0 < df_count (skills index) term"
  shows "calculateIDF index term =
           (if df_count (skills index) term = 0 then Fin 0
            else Fin (ln ((real (length (skills index)) - real (df_count (skills index) term) + 0.5)
                          / (real (df_count (skills index) term) + 0.5) + 1)))"
proof -
  consider (absent) "documentFrequency index term = None" "df_count (skills index) term = 0"
    | (count) "documentFrequency index term = Some (Count (df_count (skills index) term))"
    using consistent_own [OF assms(1), of "term"] by auto
  then show ?thesis
  proof cases
    case absent
    then show ?thesis
      using assms(2) by (simp add: calculateIDF_absent)
  next
    case count
    then show ?thesis
      by (simp add: calculateIDF_count)
  qed
qed

subsection \<open>The example with a tie\<close>

lemma scoreTerm_cong:
  assumes "keywords e1 = keywords e2" and "tokens e1 = tokens e2"
  shows "scoreTerm index k1 b e1 = scoreTerm index k1 b e2"
  using assms by (auto simp: scoreTerm_def getDocLength_def getTermFrequency_def fun_eq_iff)

lemma score_scoreSkill_cong:
  assumes "keywords e1 = keywords e2" and "tokens e1 = tokens e2"
  shows "score (scoreSkill index k1 b e1 queryTerms) = score (scoreSkill index k1 b e2 queryTerms)"
  by (simp add: scoreSkill_def scoreTerm_cong [OF assms] split: prod.split)

lemma tokenizeQuery_test_match: "tokenizeQuery ''test match'' = [''test'', ''match'']"
  by (simp add: tokenize_eval)

lemma consistent_tie_index: "consistent tie_index"
  unfolding tie_index_def
  by (rule consistent_buildIndex) (simp add: skill_1_def skill_2_def Object_prototype_keys_def)

lemma order_github:
  "map skill (scoreAll github_index (Fin 1.2) (Fin 0.75) ''github'') = [keyword_match, token_match]"
proof -
  have k: "score (scoreSkill github_index (Fin 1.2) (Fin 0.75) keyword_match [''github''])
             = Fin (ln (6 / 5) * (11 / 8))"
    by (simp add: score_github tf_keyword_match docLength_examples)
  have t: "score (scoreSkill github_index (Fin 1.2) (Fin 0.75) token_match [''github''])
             = Fin (ln (6 / 5))"
    by (simp add: score_github tf_token_match docLength_examples)
  show ?thesis
    using k t
    by (simp add: scoreAll_sorted_map tokenizeQuery_github skills_github_index Array_sort_def
        skill_scoreSkill)
qed

section \<open>Term frequency and matched keywords\<close>

text \<open>
  C1 (amended). A term that is not a substring of any keyword of a document and is not
  one of its tokens has term frequency 0 in it, and is never among the matched keywords
  of the document's result, whatever the query. (A term that is a substring of a keyword
  without being a keyword counts: the source matches keywords by \<^verbatim>\<open>includes\<close>, which
  is \<open>sublist\<close> by \<open>String_includes_iff_sublist\<close>.)
\<close>

theorem absent_term_frequency_zero:
  assumes "\<forall>k \<in> set (keywords D). \<not> String_includes k T"
    and "T \<notin> set (tokens D)"
  shows "getTermFrequency D T = 0
       \<and> T \<notin> set (matchedKeywords (scoreSkill index k1 b D queryTerms))"
  using assms
  by (simp add: getTermFrequency_zero_iff matchedKeywords_scoreSkill set_Set_of)

theorem absent_term_frequency_zero_witness:
  "\<not> String_includes ''github'' ''sql''
   \<and> ''sql'' \<notin> set (tokens keyword_match)
   \<and> getTermFrequency keyword_match ''sql'' = 0
   \<and> ''sql'' \<notin> set (matchedKeywords
        (scoreSkill github_index (Fin 1.2) (Fin 0.75)
           keyword_match [''sql'', ''github'']))"
proof -
  have h1: "\<forall>k \<in> set (keywords keyword_match). \<not> String_includes k ''sql''"
    by (simp add: keyword_match_def)
  have h2: "''sql'' \<notin> set (tokens keyword_match)"
    by (simp add: keyword_match_def)
  show ?thesis
    using absent_term_frequency_zero [OF h1 h2] h2 by simp
qed

text \<open>
  C1 as stated fails: \<open>git\<close> is neither a keyword nor a token of the document, yet its
  term frequency is 2 and it is a matched keyword, because the keyword \<open>github\<close>
  contains it.
\<close>

theorem absent_term_counterexample:
  "''git'' \<notin> set (keywords keyword_match)
   \<and> ''git'' \<notin> set (tokens keyword_match)
   \<and> getTermFrequency keyword_match ''git'' = 2
   \<and> ''git'' \<in> set (matchedKeywords
        (scoreSkill github_index (Fin 1.2) (Fin 0.75)
           keyword_match [''git'']))"
  by (simp add: keyword_match_def getTermFrequency_eq matchedKeywords_scoreSkill set_Set_of)


section \<open>Keyword matches outweigh token matches\<close>





section \<open>Scores are not negative\<close>




section \<open>Always-include documents\<close>

text \<open>
  C4. In an index whose documents have distinct names (the name is the identity of a
  document, and the index built from a scan has distinct names by
  \<open>distinct_names_buildIndex\<close>), a document of the index with its own always-include flag
  set, or with its
  name listed in \<open>config.alwaysInclude\<close>, appears in the output of \<open>scoreQuery\<close> whatever
  the threshold and the cap are; exactly one result carries its name, and that result is
  not among the entries after the always-include partition; and when no query term has a
  positive term frequency in it (or the query has no term at all), it appears with score
  0 and no matched terms.
\<close>

theorem always_include_appears:
  assumes "distinct (map name (skills index))"
    and "entry \<in> set (skills index)"
    and "truthy (SkillEntry.alwaysInclude entry)
         \<or> name entry \<in> set (RouterConfig.alwaysInclude config)"
  shows "(\<exists>r \<in> set (scoreQuery index query config). skill r = entry)
       \<and> length (filter (\<lambda>r. name (skill r) = name entry) (scoreQuery index query config)) = 1
       \<and> (\<forall>r \<in> set (drop (length (alwaysIncludeSkills index config))
                        (scoreQuery index query config)).
             name (skill r) \<noteq> name entry)
       \<and> ((\<forall>t \<in> set (tokenizeQuery query). getTermFrequency entry t = 0) \<longrightarrow>
             \<lparr>skill = entry, score = Fin 0, matchedKeywords = []\<rparr>
               \<in> set (scoreQuery index query config))"
proof -
  let ?forced = "alwaysIncludeSkills index config"
  let ?f = "forcedResult index query config"
  let ?top = "topResults index query config"
  have member: "entry \<in> set ?forced"
    using assms(2,3) by (simp add: alwaysIncludeSkills_def)
  have in_out: "?f entry \<in> set (scoreQuery index query config)"
    using member by (simp add: scoreQuery_partition)
  have appears: "\<exists>r \<in> set (scoreQuery index query config). skill r = entry"
    using in_out skill_forcedResult [OF assms(1,2)] by blast
  have top: "\<forall>r \<in> set ?top. name (skill r) \<noteq> name entry"
    using topResults_member [of _ index query config] member by force
  have "distinct (map name ?forced)"
    using assms(1) by (simp add: alwaysIncludeSkills_def distinct_map_filter)
  then have "filter (\<lambda>e. name e = name entry) ?forced = [entry]"
    using member by (rule filter_distinct_key)
  then have "filter (\<lambda>r. name (skill r) = name entry) (map ?f ?forced) = [?f entry]"
    by (simp add: filter_map comp_def name_forcedResult)
  moreover have "filter (\<lambda>r. name (skill r) = name entry) ?top = []"
    using top by (simp add: filter_empty_conv)
  ultimately have once:
    "length (filter (\<lambda>r. name (skill r) = name entry) (scoreQuery index query config)) = 1"
    by (simp add: scoreQuery_partition)
  have "drop (length ?forced) (scoreQuery index query config) = ?top"
    by (simp add: scoreQuery_partition)
  then have partition: "\<forall>r \<in> set (drop (length ?forced) (scoreQuery index query config)).
                          name (skill r) \<noteq> name entry"
    using top by simp
  have zero: "(\<forall>t \<in> set (tokenizeQuery query). getTermFrequency entry t = 0) \<longrightarrow>
             \<lparr>skill = entry, score = Fin 0, matchedKeywords = []\<rparr>
               \<in> set (scoreQuery index query config)"
    using forcedResult_no_overlap [OF assms(1,2), of query config] in_out by auto
  show ?thesis
    using appears once partition zero by blast
qed


theorem always_include_appears_witness:
  "distinct (map name (skills router_index))
   \<and> router \<in> set (skills router_index)
   \<and> truthy (SkillEntry.alwaysInclude router)
   \<and> threshold strict_config = PInf
   \<and> length (filter (\<lambda>r. name (skill r) = name router)
               (scoreQuery router_index ''unrelated query xyz'' strict_config)) = 1
   \<and> \<lparr>skill = router, score = Fin 0, matchedKeywords = []\<rparr>
         \<in> set (scoreQuery router_index ''unrelated query xyz'' strict_config)"
proof -
  have h1: "distinct (map name (skills router_index))"
    by (simp add: router_index_def buildIndex_def router_def other_def)
  have h2: "router \<in> set (skills router_index)"
    by (simp add: router_index_def buildIndex_def)
  have h3: "truthy (SkillEntry.alwaysInclude router)
            \<or> name router \<in> set (RouterConfig.alwaysInclude strict_config)"
    by (simp add: router_def truthy_def)
  have h4: "\<forall>t \<in> set (tokenizeQuery ''unrelated query xyz''). getTermFrequency router t = 0"
    by (simp add: tokenizeQuery_unrelated getTermFrequency_eq router_def)
  show ?thesis
    using always_include_appears [OF h1 h2 h3, of "''unrelated query xyz''"] h1 h2 h4
    by (simp add: router_def truthy_def strict_config_def)
qed

section \<open>Threshold and cap\<close>





section \<open>Queries without terms\<close>

text \<open>
  C6. A query whose tokenization yields no term (by \<open>tokenize_Nil_iff\<close>: every piece
  between white space, after lower-casing and replacing the other characters, is shorter
  than two characters or a stop word; the empty string is one empty piece) makes
  \<open>scoreAll\<close> return the empty sequence, for every index.
\<close>

theorem empty_query_scores_nothing:
  assumes "tokenizeQuery query = []"
  shows "scoreAll index k1 b query = []"
  using assms by (simp add: scoreAll_def)

theorem empty_query_scores_nothing_witness:
  "tokenizeQuery '''' = []
   \<and> scoreAll github_index (Fin 1.2) (Fin 0.75) '''' = []
   \<and> tokenizeQuery ''the and is'' = []
   \<and> scoreAll github_index (Fin 1.2) (Fin 0.75) ''the and is'' = []
   \<and> tokenizeQuery ''Is it a B, or an X?'' = []
   \<and> scoreAll github_index (Fin 1.2) (Fin 0.75) ''Is it a B, or an X?'' = []"
proof -
  have h1: "tokenizeQuery '''' = []"
    by (simp add: tokenize_eval)
  have h2: "tokenizeQuery ''the and is'' = []"
    by (simp add: tokenize_eval)
  have h3: "tokenizeQuery ''Is it a B, or an X?'' = []"
    by (simp add: tokenize_eval)
  show ?thesis
    using empty_query_scores_nothing [OF h1] empty_query_scores_nothing [OF h2]
      empty_query_scores_nothing [OF h3] h1 h2 h3
    by simp
qed

section \<open>Document frequencies of the built index\<close>

text \<open>
  C7 does not hold of the code. The table is a plain object, so for a term that is a
  property name of \<^verbatim>\<open>Object.prototype\<close> the read \<^verbatim>\<open>df[term] ?? 0\<close> finds the inherited
  function, and \<^verbatim>\<open>+ 1\<close> appends to its text: one document holds the term
  \<open>constructor\<close>, but the table maps it to a string, not to 1, and the index that
  \<open>buildIndex\<close> returns is not consistent. For every other term the table holds the
  count (\<open>calculateDocumentFrequency_count\<close>), one per document whatever the number of
  occurrences, and an index built from documents without such terms is consistent
  (\<open>consistent_buildIndex\<close>).
\<close>

theorem constructor_document_frequency:
  "df_count [constructor_doc] ''constructor'' = 1
   \<and> documentFrequency (buildIndex [constructor_doc] ''2026-01-01T00:00:00.000Z'') ''constructor''
       = Some NonNumeric
   \<and> \<not> consistent (buildIndex [constructor_doc] ''2026-01-01T00:00:00.000Z'')"
proof -
  have count: "df_count [constructor_doc] ''constructor'' = 1"
    by (simp add: df_count_def constructor_doc_def)
  have own: "documentFrequency (buildIndex [constructor_doc] ''2026-01-01T00:00:00.000Z'')
               ''constructor'' = Some NonNumeric"
    by (simp add: buildIndex_def calculateDocumentFrequency_def constructor_doc_def Set_of_def
        df_increment_def object_get_def object_set_def Object_prototype_keys_def)
  have "\<not> consistent (buildIndex [constructor_doc] ''2026-01-01T00:00:00.000Z'')"
    using consistent_own [of "buildIndex [constructor_doc] ''2026-01-01T00:00:00.000Z''"
        "''constructor''"] own
    by auto
  then show ?thesis
    using count own by blast
qed

section \<open>Order of the results\<close>

text \<open>
  C8 (amended). For a query with at least one term, and provided no document's score is
  \<open>NaN\<close>, \<open>scoreAll\<close> returns the results of \<open>scoreSkill\<close> for the documents of the
  index, one for each; they are sorted by score, descending; and the results of any one
  score stand in the order of their documents in the index.
\<close>

theorem scoreAll_sorted_stable:
  assumes "tokenizeQuery query \<noteq> []"
    and "\<forall>entry \<in> set (skills index).
           score (scoreSkill index k1 b entry (tokenizeQuery query)) \<noteq> NaN"
  shows "mset (scoreAll index k1 b query)
           = mset (map (\<lambda>entry. scoreSkill index k1 b entry (tokenizeQuery query)) (skills index))
       \<and> mset (map skill (scoreAll index k1 b query)) = mset (skills index)
       \<and> sorted_wrt (\<lambda>r r'. score r \<ge> score r') (scoreAll index k1 b query)
       \<and> (\<forall>v. filter (\<lambda>r. score r = v) (scoreAll index k1 b query)
               = filter (\<lambda>r. score r = v)
                   (map (\<lambda>entry. scoreSkill index k1 b entry (tokenizeQuery query))
                      (skills index)))"
proof -
  let ?results = "map (\<lambda>entry. scoreSkill index k1 b entry (tokenizeQuery query)) (skills index)"
  have all: "scoreAll index k1 b query = Array_sort (\<lambda>a b. score b - score a) ?results"
    using assms(1) by (rule scoreAll_sorted_map)
  have "\<forall>r \<in> set ?results. score r \<noteq> NaN"
    using assms(2) by simp
  then have "sorted_wrt (\<lambda>r r'. score r' \<le> score r) (Array_sort (\<lambda>a b. score b - score a) ?results)"
    by (rule sorted_Array_sort)
  moreover have "mset (map skill (Array_sort (\<lambda>a b. score b - score a) ?results))
                   = mset (skills index)"
  proof -
    have "mset (map skill (Array_sort (\<lambda>a b. score b - score a) ?results))
            = image_mset skill (mset (Array_sort (\<lambda>a b. score b - score a) ?results))"
      by (rule mset_map)
    also have "\<dots> = image_mset skill (mset ?results)"
      by (simp only: mset_Array_sort)
    also have "\<dots> = mset (map skill ?results)"
      by (rule mset_map [symmetric])
    also have "map skill ?results = skills index"
      by (simp add: comp_def skill_scoreSkill)
    finally show ?thesis .
  qed
  ultimately show ?thesis
    unfolding all by (simp add: mset_Array_sort filter_Array_sort_score)
qed

theorem scoreAll_sorted_stable_witness:
  "tokenizeQuery ''github'' \<noteq> []
   \<and> score (scoreSkill github_index (Fin 1.2) (Fin 0.75) keyword_match (tokenizeQuery ''github''))
        \<noteq> NaN
   \<and> score (scoreSkill github_index (Fin 1.2) (Fin 0.75) token_match (tokenizeQuery ''github''))
        \<noteq> NaN
   \<and> mset (scoreAll github_index (Fin 1.2) (Fin 0.75) ''github'')
        = mset (map (\<lambda>entry. scoreSkill github_index (Fin 1.2) (Fin 0.75) entry
                                (tokenizeQuery ''github''))
                  (skills github_index))
   \<and> sorted_wrt (\<lambda>r r'. score r \<ge> score r') (scoreAll github_index (Fin 1.2) (Fin 0.75) ''github'')
   \<and> map skill (scoreAll github_index (Fin 1.2) (Fin 0.75) ''github'')
        = [keyword_match, token_match]
   \<and> tokenizeQuery ''test match'' \<noteq> []
   \<and> score (scoreSkill tie_index (Fin 1.2) (Fin 0.75) skill_1 (tokenizeQuery ''test match'')) \<noteq> NaN
   \<and> score (scoreSkill tie_index (Fin 1.2) (Fin 0.75) skill_2 (tokenizeQuery ''test match''))
       = score (scoreSkill tie_index (Fin 1.2) (Fin 0.75) skill_1 (tokenizeQuery ''test match''))
   \<and> map skill (scoreAll tie_index (Fin 1.2) (Fin 0.75) ''test match'') = [skill_1, skill_2]"
proof -
  have h1: "tokenizeQuery ''github'' \<noteq> []"
    by (simp add: tokenizeQuery_github)
  have s1: "score (scoreSkill github_index (Fin 1.2) (Fin 0.75) keyword_match
              (tokenizeQuery ''github'')) \<noteq> NaN"
    by (simp add: tokenizeQuery_github score_github tf_keyword_match docLength_examples)
  have s2: "score (scoreSkill github_index (Fin 1.2) (Fin 0.75) token_match
              (tokenizeQuery ''github'')) \<noteq> NaN"
    by (simp add: tokenizeQuery_github score_github tf_token_match docLength_examples)
  have h2: "\<forall>entry \<in> set (skills github_index).
              score (scoreSkill github_index (Fin 1.2) (Fin 0.75) entry (tokenizeQuery ''github''))
                \<noteq> NaN"
    using s1 s2 by (simp add: skills_github_index)
  note github = scoreAll_sorted_stable [OF h1 h2]
  let ?terms = "tokenizeQuery ''test match''"
  let ?r = "\<lambda>entry. scoreSkill tie_index (Fin 1.2) (Fin 0.75) entry ?terms"
  let ?all = "scoreAll tie_index (Fin 1.2) (Fin 0.75) ''test match''"
  have t1: "?terms \<noteq> []"
    by (simp add: tokenizeQuery_test_match)
  have skills: "skills tie_index = [skill_1, skill_2]"
    by (simp add: tie_index_def)
  obtain x where x: "score (?r skill_1) = Fin x"
    using scoreSkill_nonneg [OF consistent_tie_index, of skill_1 "1.2" "0.75" ?terms]
    by (auto simp: skills tokenizeQuery_test_match Object_prototype_keys_def)
  have tie: "score (?r skill_2) = score (?r skill_1)"
    by (rule score_scoreSkill_cong) (simp_all add: skill_1_def skill_2_def)
  have t2: "\<forall>entry \<in> set (skills tie_index). score (?r entry) \<noteq> NaN"
    using x tie by (simp add: skills)
  note ties = scoreAll_sorted_stable [OF t1 t2]
  have "\<forall>r \<in> set ?all. score r = Fin x"
  proof
    fix r
    assume "r \<in> set ?all"
    then have "r \<in># mset ?all" by simp
    then have "r \<in> set (map ?r (skills tie_index))"
      using ties by (metis set_mset_mset)
    then show "score r = Fin x"
      using x tie by (auto simp: skills)
  qed
  then have "filter (\<lambda>r. score r = Fin x) ?all = ?all"
    by (simp add: filter_id_conv)
  moreover have "filter (\<lambda>r. score r = Fin x) (map ?r (skills tie_index)) = map ?r (skills tie_index)"
    using x tie by (simp add: skills)
  ultimately have "?all = map ?r (skills tie_index)"
    using ties by metis
  then have order: "map skill ?all = [skill_1, skill_2]"
    by (simp add: skills skill_scoreSkill)
  show ?thesis
    using github h1 s1 s2 order_github t1 x tie order by simp
qed

text \<open>
  C8 as stated fails when a score is \<open>NaN\<close>: with \<open>k1 = -1\<close> and \<open>b = 0\<close> the
  document that matches by one token gets \<open>0 / 0\<close>, and a list of two results that
  holds a \<open>NaN\<close> is not sorted in either order.
\<close>

theorem scoreAll_NaN_counterexample:
  "tokenizeQuery ''github'' \<noteq> []
   \<and> score (scoreSkill github_index (Fin (- 1)) (Fin 0) token_match (tokenizeQuery ''github'')) = NaN
   \<and> \<not> sorted_wrt (\<lambda>r r'. score r \<ge> score r') (scoreAll github_index (Fin (- 1)) (Fin 0) ''github'')"
proof -
  let ?r = "scoreSkill github_index (Fin (- 1)) (Fin 0) token_match (tokenizeQuery ''github'')"
  have h1: "tokenizeQuery ''github'' \<noteq> []"
    by (simp add: tokenizeQuery_github)
  have nan: "score ?r = NaN"
    by (simp add: tokenizeQuery_github score_github tf_token_match docLength_examples)
  have "?r \<in> set (scoreAll github_index (Fin (- 1)) (Fin 0) ''github'')"
    using h1 by (rule scoreAll_has_entry) (simp add: skills_github_index)
  moreover have "length (scoreAll github_index (Fin (- 1)) (Fin 0) ''github'') = 2"
    by (simp add: scoreAll_sorted_map tokenizeQuery_github length_Array_sort skills_github_index)
  ultimately have "\<not> sorted_wrt (\<lambda>r r'. score r \<ge> score r')
                      (scoreAll github_index (Fin (- 1)) (Fin 0) ''github'')"
    using nan NaN_not_sorted by fastforce
  then show ?thesis
    using h1 nan by blast
qed

section \<open>Inverse document frequency\<close>




text \<open>
  The amended statement leaves out the terms that are property names of
  \<^verbatim>\<open>Object.prototype\<close> and have no own property in the table. For those the code reads
  the inherited function: \<open>constructor\<close> is in no document of the index, yet its
  inverse document frequency is \<open>NaN\<close>, and so is the score of the document whose
  keyword contains it.
\<close>

lemma inherited_document_frequency:
  "consistent constructors_index
   \<and> df_count (skills constructors_index) ''constructor'' = 0
   \<and> documentFrequency constructors_index ''constructor'' = None
   \<and> getTermFrequency constructors_doc ''constructor'' = 2
   \<and> calculateIDF constructors_index ''constructor'' = NaN
   \<and> score (scoreSkill constructors_index (Fin 1.2) (Fin 0.75) constructors_doc
               (tokenizeQuery ''constructor'')) = NaN"
proof -
  have cons: "consistent constructors_index"
    unfolding constructors_index_def
    by (rule consistent_buildIndex) (simp add: constructors_doc_def Object_prototype_keys_def)
  have count: "df_count (skills constructors_index) ''constructor'' = 0"
    by (simp add: constructors_index_def buildIndex_def df_count_def constructors_doc_def)
  have own: "documentFrequency constructors_index ''constructor'' = None"
    unfolding constructors_index_def
    by (rule documentFrequency_buildIndex_absent) (simp add: constructors_doc_def)
  have tf: "getTermFrequency constructors_doc ''constructor'' = 2"
    by (simp add: getTermFrequency_eq constructors_doc_def)
  have idf: "calculateIDF constructors_index ''constructor'' = NaN"
    using own by (rule calculateIDF_inherited) (simp add: Object_prototype_keys_def)
  have terms: "tokenizeQuery ''constructor'' = [''constructor'']"
    by (simp add: tokenize_eval)
  have "score (scoreSkill constructors_index (Fin 1.2) (Fin 0.75) constructors_doc
               (tokenizeQuery ''constructor'')) = NaN"
    by (simp add: terms scoreSkill_def scoreTerm_def Let_def tf idf)
  then show ?thesis
    using cons count own tf idf by blast
qed


section \<open>Matched keywords\<close>

text \<open>
  C10. The \<open>matchedKeywords\<close> of the result of \<open>scoreSkill\<close> hold no duplicates; every
  entry is one of the query's terms, with a positive term frequency in the document; and
  the entries are the query's terms, not the document's: a keyword or token of the
  document that is not itself a query term is never an entry.
\<close>

theorem matchedKeywords_query_terms:
  "distinct (matchedKeywords (scoreSkill index k1 b entry queryTerms))
   \<and> (\<forall>t \<in> set (matchedKeywords (scoreSkill index k1 b entry queryTerms)).
         t \<in> set queryTerms \<and> 0 < getTermFrequency entry t)
   \<and> (\<forall>w \<in> set (keywords entry) \<union> set (tokens entry).
         w \<notin> set queryTerms \<longrightarrow>
           w \<notin> set (matchedKeywords (scoreSkill index k1 b entry queryTerms)))"
  by (auto simp: matchedKeywords_scoreSkill distinct_Set_of set_Set_of)

theorem matchedKeywords_query_terms_witness:
  "matchedKeywords (scoreSkill github_index (Fin 1.2) (Fin 0.75) keyword_match
      [''git'', ''hub'', ''git'', ''sql'']) = [''git'', ''hub'']
   \<and> distinct (matchedKeywords (scoreSkill github_index (Fin 1.2) (Fin 0.75) keyword_match
      [''git'', ''hub'', ''git'', ''sql'']))
   \<and> ''github'' \<in> set (keywords keyword_match)
   \<and> ''github'' \<notin> set (matchedKeywords (scoreSkill github_index (Fin 1.2) (Fin 0.75)
        keyword_match [''git'', ''hub'', ''git'', ''sql'']))"
  using matchedKeywords_query_terms [of github_index "Fin 1.2" "Fin 0.75" keyword_match
      "[''git'', ''hub'', ''git'', ''sql'']"]
  by (simp add: matchedKeywords_scoreSkill getTermFrequency_eq keyword_match_def Set_of_def)


end
